theory Spec2Isabelle
  imports Complex_Main "HOL-Library.Sublist"
begin

section \<open>Data model (models.py)\<close>

text \<open>
  The practice-conversation backend keeps its state in two module-level variables of
  main.py: an insertion-ordered dictionary of sessions and one progress record. The
  types below follow the pydantic models of models.py field by field. Python's
  unbounded integers are \<^typ>\<open>int\<close>. Text is \<^typ>\<open>string\<close>: the catalog, the prompts and
  the fixed replies of the source are plain ASCII, and the text operations used by the
  code (\<open>lower\<close>, \<open>split\<close>, \<open>strip\<close>, \<open>in\<close>) are modelled on that character set.
  A \<open>datetime\<close> is the number of microseconds on the wall clock.
\<close>

datatype ComplexityLevel = EASY | MEDIUM | HARD

datatype MessageRole = MANAGER | USER

type_synonym datetime = int

record Message =
  role :: MessageRole
  content :: string
  timestamp :: datetime

record Scenario =
  scenario_id :: string
  primary_topic :: string
  complexity_level :: ComplexityLevel
  surprise_element :: "string option"
  context_text :: string
  initial_prompt :: string
  helpful_phrases :: "string list"

record Session =
  session_id :: string
  scenario :: Scenario
  conversation_history :: "Message list"
  start_time :: datetime
  is_active :: bool

record UserProgress =
  total_sessions :: int
  current_complexity :: ComplexityLevel
  streak_days :: int
  last_session_date :: "datetime option"

text \<open>
  Exceptions are values. \<open>HTTPException\<close> carries the status code and the detail text the
  endpoints of main.py raise; \<open>IndexError\<close> is what \<open>random.choice\<close> raises on an empty
  list, \<open>ValueError\<close> what \<open>int\<close> raises on text that is not a number, and
  \<open>OtherException\<close> stands for whatever an external service call raises.
\<close>

datatype py_error =
    IndexError
  | ValueError
  | OtherException string
  | HTTPException nat string

section \<open>Scenario catalog and selection (scenarios.py)\<close>

definition scenario_easy_1 :: Scenario where
  "scenario_easy_1 = \<lparr>
     scenario_id = ''easy_1'',
     primary_topic = ''weekly_progress'',
     complexity_level = EASY,
     surprise_element = None,
     context_text = ''You had a productive week and completed your assigned tasks.'',
     initial_prompt = ''Hi! How was your week? What did you work on?'',
     helpful_phrases =
      [''I completed...'',
       ''I'm currently working on...'',
       ''This week I focused on...'',
       ''Everything is on track.'']\<rparr>"

definition scenario_easy_2 :: Scenario where
  "scenario_easy_2 = \<lparr>
     scenario_id = ''easy_2'',
     primary_topic = ''current_tasks'',
     complexity_level = EASY,
     surprise_element = None,
     context_text = ''You're working on updating the user dashboard with new analytics.'',
     initial_prompt = ''Good morning! What are you currently working on?'',
     helpful_phrases =
      [''I'm working on...'',
       ''I'm updating the...'',
       ''I'm making progress on...'',
       ''I should finish this by...'']\<rparr>"

definition scenario_medium_1 :: Scenario where
  "scenario_medium_1 = \<lparr>
     scenario_id = ''medium_1'',
     primary_topic = ''minor_delay'',
     complexity_level = MEDIUM,
     surprise_element = Some ''Manager asks about impact on timeline'',
     context_text = ''Your task is delayed by 2 days because of API documentation issues.'',
     initial_prompt = ''Hey, how's the API integration going?'',
     helpful_phrases =
      [''I'm running into...'',
       ''There's a delay because...'',
       ''It will take an extra... days'',
       ''I estimate I'll finish by...'']\<rparr>"

definition scenario_medium_2 :: Scenario where
  "scenario_medium_2 = \<lparr>
     scenario_id = ''medium_2'',
     primary_topic = ''need_clarification'',
     complexity_level = MEDIUM,
     surprise_element = Some ''Manager asks you to propose a solution'',
     context_text = ''You're unclear about the requirements for the new feature.'',
     initial_prompt = ''I wanted to check in on the new feature. How's it coming along?'',
     helpful_phrases =
      [''I need clarification on...'',
       ''I'm not sure about...'',
       ''Could we discuss...'',
       ''I have a question about...'']\<rparr>"

definition scenario_medium_3 :: Scenario where
  "scenario_medium_3 = \<lparr>
     scenario_id = ''medium_3'',
     primary_topic = ''cross_team_dependency'',
     complexity_level = MEDIUM,
     surprise_element = Some ''Manager asks when you followed up with other team'',
     context_text = ''You're waiting on the design team to finalize mockups.'',
     initial_prompt = ''What's the status on the homepage redesign?'',
     helpful_phrases =
      [''I'm waiting for...'',
       ''I'm blocked by...'',
       ''Once I receive... I can proceed'',
       ''I followed up with... team'']\<rparr>"

definition scenario_medium_4 :: Scenario where
  "scenario_medium_4 = \<lparr>
     scenario_id = ''medium_4'',
     primary_topic = ''technical_blocker'',
     complexity_level = MEDIUM,
     surprise_element = Some ''Manager asks if you need additional resources'',
     context_text = ''You're stuck on a performance issue with database queries.'',
     initial_prompt = ''How's the database optimization task going?'',
     helpful_phrases =
      [''I'm stuck on...'',
       ''I'm facing a challenge with...'',
       ''I could use some help with...'',
       ''I've tried... but...'']\<rparr>"

definition scenario_hard_1 :: Scenario where
  "scenario_hard_1 = \<lparr>
     scenario_id = ''hard_1'',
     primary_topic = ''significant_delay'',
     complexity_level = HARD,
     surprise_element = Some ''Manager reveals client is waiting on this deliverable'',
     context_text = ''Your feature is 5 days behind schedule due to unexpected technical challenges.'',
     initial_prompt = ''I need an update on the payment integration. The deadline is approaching.'',
     helpful_phrases =
      [''Unfortunately, we're behind schedule because...'',
       ''I've encountered unexpected...'',
       ''My revised estimate is...'',
       ''Here's what I'm doing to catch up...'']\<rparr>"

definition scenario_hard_2 :: Scenario where
  "scenario_hard_2 = \<lparr>
     scenario_id = ''hard_2'',
     primary_topic = ''scope_creep'',
     complexity_level = HARD,
     surprise_element = Some ''Manager suggests adding even more features'',
     context_text = ''Stakeholders keep requesting additional features beyond the original scope.'',
     initial_prompt = ''How's the customer portal coming? I heard marketing had some ideas.'',
     helpful_phrases =
      [''We're getting requests for...'',
       ''This is beyond the original scope'',
       ''If we add this, it will impact...'',
       ''I suggest we prioritize...'']\<rparr>"

definition scenario_hard_3 :: Scenario where
  "scenario_hard_3 = \<lparr>
     scenario_id = ''hard_3'',
     primary_topic = ''need_help'',
     complexity_level = HARD,
     surprise_element = Some ''Manager asks why you didn't mention this earlier'',
     context_text = ''You've been struggling with a complex algorithm for 3 days and need senior help.'',
     initial_prompt = ''How's the search algorithm refactoring going? You've been on it for a while.'',
     helpful_phrases =
      [''I need assistance with...'',
       ''I've been struggling with...'',
       ''Could someone review...'',
       ''I'd appreciate guidance on...'']\<rparr>"

definition scenario_hard_4 :: Scenario where
  "scenario_hard_4 = \<lparr>
     scenario_id = ''hard_4'',
     primary_topic = ''conflicting_priorities'',
     complexity_level = HARD,
     surprise_element = Some ''Manager adds another urgent task'',
     context_text = ''You have three high-priority tasks and can't complete them all on time.'',
     initial_prompt = ''Quick check-in. What are you focusing on this week?'',
     helpful_phrases =
      [''I'm currently juggling...'',
       ''I need help prioritizing...'',
       ''Which should I focus on first?'',
       ''I can't complete all of these by...'']\<rparr>"

definition scenario_hard_5 :: Scenario where
  "scenario_hard_5 = \<lparr>
     scenario_id = ''hard_5'',
     primary_topic = ''quality_vs_speed'',
     complexity_level = HARD,
     surprise_element = Some ''Manager emphasizes quality importance after you mention rushing'',
     context_text = ''You can meet the deadline but the code quality will suffer, or take 2 more days for proper implementation.'',
     initial_prompt = ''The demo is in 3 days. Is everything ready?'',
     helpful_phrases =
      [''I can meet the deadline, but...'',
       ''There's a trade-off between...'',
       ''If we want quality, we need...'',
       ''I recommend we...'']\<rparr>"

definition scenario_easy_3 :: Scenario where
  "scenario_easy_3 = \<lparr>
     scenario_id = ''easy_3'',
     primary_topic = ''completed_task'',
     complexity_level = EASY,
     surprise_element = None,
     context_text = ''You just finished implementing the login page and it's ready for review.'',
     initial_prompt = ''Hi! I saw you closed the ticket. How did it go?'',
     helpful_phrases =
      [''I finished...'',
       ''It's ready for review'',
       ''I implemented...'',
       ''It went smoothly'']\<rparr>"

definition scenario_medium_5 :: Scenario where
  "scenario_medium_5 = \<lparr>
     scenario_id = ''medium_5'',
     primary_topic = ''changing_requirements'',
     complexity_level = MEDIUM,
     surprise_element = Some ''Manager asks how this affects other features'',
     context_text = ''The requirements changed mid-sprint and you need to revise your approach.'',
     initial_prompt = ''How's the reports feature? I know the requirements were updated.'',
     helpful_phrases =
      [''The requirements changed...'',
       ''I need to revise...'',
       ''This means I'll have to...'',
       ''I'm adjusting my approach'']\<rparr>"

definition scenario_hard_6 :: Scenario where
  "scenario_hard_6 = \<lparr>
     scenario_id = ''hard_6'',
     primary_topic = ''bug_in_production'',
     complexity_level = HARD,
     surprise_element = Some ''Manager asks about prevention measures'',
     context_text = ''A bug you introduced is affecting production users, and you're working on a hotfix.'',
     initial_prompt = ''I heard there's an issue in production. Can you update me?'',
     helpful_phrases =
      [''There's a bug affecting...'',
       ''I'm working on a hotfix'',
       ''The issue is caused by...'',
       ''I'll have it fixed by...'']\<rparr>"


definition SCENARIOS :: "Scenario list" where
  "SCENARIOS =
     [scenario_easy_1,
      scenario_easy_2,
      scenario_medium_1,
      scenario_medium_2,
      scenario_medium_3,
      scenario_medium_4,
      scenario_hard_1,
      scenario_hard_2,
      scenario_hard_3,
      scenario_hard_4,
      scenario_hard_5,
      scenario_easy_3,
      scenario_medium_5,
      scenario_hard_6]"

definition get_scenarios_by_complexity :: "ComplexityLevel \<Rightarrow> Scenario list" where
  "get_scenarios_by_complexity complexity =
     filter (\<lambda>s. complexity_level s = complexity) SCENARIOS"

text \<open>
  \<open>random.choice(seq)\<close> raises \<open>IndexError\<close> on an empty sequence and otherwise returns
  the element at a random index below \<open>len(seq)\<close>. The random draw is the argument \<open>r\<close>;
  every index is reached by some draw.
\<close>

definition random_choice :: "nat \<Rightarrow> 'a list \<Rightarrow> py_error + 'a" where
  "random_choice r seq =
     (if seq = [] then Inl IndexError else Inr (seq ! (r mod length seq)))"

definition select_scenario_for_user :: "UserProgress \<Rightarrow> nat \<Rightarrow> py_error + Scenario" where
  "select_scenario_for_user user_progress r =
     (let available =
        (if total_sessions user_progress < 2 then
           get_scenarios_by_complexity EASY
         else if total_sessions user_progress < 5 then
           get_scenarios_by_complexity MEDIUM
         else
           (if total_sessions user_progress mod 3 = 0 then
              get_scenarios_by_complexity HARD
            else
              get_scenarios_by_complexity MEDIUM))
      in random_choice r available)"

definition determine_next_complexity :: "UserProgress \<Rightarrow> ComplexityLevel" where
  "determine_next_complexity user_progress =
     (if total_sessions user_progress < 2 then EASY
      else if total_sessions user_progress < 5 then MEDIUM
      else HARD)"

section \<open>Text operations\<close>

text \<open>
  The string methods the code relies on, on ASCII text. \<open>is_space\<close> is \<open>str.isspace\<close> for
  one character: tab, line feed, vertical tab, form feed, carriage return, the four
  separators \<open>0x1c\<close> to \<open>0x1f\<close>, and the blank. It is also the class \<open>\s\<close> of the regular
  expressions of feedback_analyzer.py.
\<close>

definition is_space :: "char \<Rightarrow> bool" where
  "is_space c = (of_char c \<in> set [9, 10, 11, 12, 13, 28, 29, 30, 31, 32 :: nat])"

definition is_digit :: "char \<Rightarrow> bool" where
  "is_digit c = (48 \<le> (of_char c :: nat) \<and> (of_char c :: nat) \<le> 57)"

definition lower_char :: "char \<Rightarrow> char" where
  "lower_char c =
     (if 65 \<le> (of_char c :: nat) \<and> (of_char c :: nat) \<le> 90
      then char_of (of_char c + 32 :: nat) else c)"

definition lower :: "string \<Rightarrow> string" where
  "lower s = map lower_char s"

text \<open>\<open>s.split()\<close>: the maximal runs of characters that are not white space, in order.\<close>

fun split_acc :: "string \<Rightarrow> string \<Rightarrow> string list" where
  "split_acc cur [] = (if cur = [] then [] else [cur])"
| "split_acc cur (c # cs) =
     (if is_space c then
        (if cur = [] then split_acc [] cs else cur # split_acc [] cs)
      else split_acc (cur @ [c]) cs)"

definition split :: "string \<Rightarrow> string list" where
  "split s = split_acc [] s"

definition strip :: "string \<Rightarrow> string" where
  "strip s = rev (dropWhile is_space (rev (dropWhile is_space s)))"

text \<open>\<open>keyword in text\<close> on strings: \<open>keyword\<close> occurs in \<open>text\<close> as a contiguous piece.\<close>

fun str_contains :: "string \<Rightarrow> string \<Rightarrow> bool" where
  "str_contains keyword [] = (keyword = [])"
| "str_contains keyword (c # cs) =
     (prefix keyword (c # cs) \<or> str_contains keyword cs)"

text \<open>
  \<open>int(text)\<close> for decimal text: surrounding white space is dropped, one sign is allowed,
  and digits may be grouped by single underscores. Anything else raises \<open>ValueError\<close>.
  On ASCII text the interpreter drops the six white-space characters of C here, not the
  separators \<open>0x1c\<close> to \<open>0x1f\<close>. (The limit recent interpreters put on the number of
  digits is not modelled.)
\<close>

definition is_c_space :: "char \<Rightarrow> bool" where
  "is_c_space c = (of_char c \<in> set [9, 10, 11, 12, 13, 32 :: nat])"

fun digits_value :: "int \<Rightarrow> string \<Rightarrow> int option" where
  "digits_value acc [] = Some acc"
| "digits_value acc (c # cs) =
     (if is_digit c then digits_value (acc * 10 + (int (of_char c) - 48)) cs
      else if c = CHR ''_'' then
        (case cs of
           [] \<Rightarrow> None
         | d # ds \<Rightarrow> if is_digit d then digits_value acc cs else None)
      else None)"

definition py_int :: "string \<Rightarrow> py_error + int" where
  "py_int text =
     (let s = rev (dropWhile is_c_space (rev (dropWhile is_c_space text)));
          (sign, body) =
            (case s of
               c # cs \<Rightarrow>
                 if c = CHR ''-'' then (- 1, cs)
                 else if c = CHR ''+'' then (1, cs)
                 else (1 :: int, s)
             | [] \<Rightarrow> (1, s))
      in case body of
           [] \<Rightarrow> Inl ValueError
         | d # ds \<Rightarrow>
             if is_digit d then
               (case digits_value 0 body of
                  None \<Rightarrow> Inl ValueError
                | Some n \<Rightarrow> Inr (sign * n))
             else Inl ValueError)"

section \<open>The conversation engine (conversation_engine.py)\<close>

text \<open>
  One entry of the request sent to the language model: the dictionary
  \<open>{"role": ..., "content": ...}\<close>.
\<close>

datatype chat_message = ChatMessage (chat_role: string) (chat_content: string)

definition SYSTEM_PROMPT :: string where
  "SYSTEM_PROMPT =
     ''You are a professional, neutral manager in a 1:1 meeting with your team '' @
     ''member.\<newline>'' @
     ''\<newline>'' @
     ''Guidelines:\<newline>'' @
     ''- Keep responses brief (1-2 sentences maximum)\<newline>'' @
     ''- Ask natural follow-up questions based on what the user shares\<newline>'' @
     ''- Be supportive but professional\<newline>'' @
     ''- If the user mentions delays or blockers, ask about impact or solutions\<newline>'' @
     ''- If the user is vague, ask for clarification\<newline>'' @
     ''- Don't be overly enthusiastic or dramatic\<newline>'' @
     ''- Use casual professional language (like real workplace conversations)\<newline>'' @
     ''\<newline>'' @
     ''Remember: You're helping an employee practice workplace communication, '' @
     ''so respond as a real manager would.''"

definition FALLBACK_RESPONSE :: string where
  "FALLBACK_RESPONSE = ''I see. Can you tell me more about that?''"

definition WRAP_UP_INSTRUCTION :: string where
  "WRAP_UP_INSTRUCTION =
     ''Wrap up the conversation naturally in 1 sentence. Thank them or say something '' @
     ''like 'Thanks for the update' or 'Keep me posted'' @
     [CHR 0x27]"

text \<open>Truth value of an \<open>Optional[str]\<close>: \<open>None\<close> and the empty string are false.\<close>

definition truthy :: "string option \<Rightarrow> bool" where
  "truthy v = (case v of None \<Rightarrow> False | Some s \<Rightarrow> s \<noteq> [])"

text \<open>
  The loop of \<open>_surprise_already_introduced\<close> over the history, with its early return:
  the first manager message whose lowercased text contains one of the keywords ends it.
\<close>

fun history_mentions :: "string list \<Rightarrow> Message list \<Rightarrow> bool" where
  "history_mentions surprise_keywords [] = False"
| "history_mentions surprise_keywords (msg # rest) =
     (if role msg = MANAGER then
        (let msg_lower = lower (content msg) in
         if list_ex (\<lambda>keyword. str_contains keyword msg_lower) surprise_keywords
         then True
         else history_mentions surprise_keywords rest)
      else history_mentions surprise_keywords rest)"

definition surprise_already_introduced :: "Session \<Rightarrow> bool" where
  "surprise_already_introduced session =
     (if \<not> truthy (surprise_element (scenario session)) then False
      else
        (case surprise_element (scenario session) of
           None \<Rightarrow> False
         | Some element \<Rightarrow>
             (let surprise_keywords = take 3 (split (lower element))
              in history_mentions surprise_keywords (conversation_history session))))"

text \<open>
  \<open>timedelta.total_seconds()\<close>, as an exact fraction. \<open>_should_end_conversation\<close> reads the
  clock (\<open>now\<close>) and the environment variable \<open>MAX_SESSION_DURATION\<close> (\<open>env\<close>, \<open>None\<close> when it
  is not set) only when fewer than six exchanges have happened; the conversion of the
  variable to a number can raise.
\<close>

definition total_seconds :: "int \<Rightarrow> rat" where
  "total_seconds d = of_int d / 1000000"

definition should_end_conversation ::
  "string option \<Rightarrow> datetime \<Rightarrow> Session \<Rightarrow> py_error + bool" where
  "should_end_conversation env now session =
     (let exchange_count = length (conversation_history session) div 2 in
      if exchange_count \<ge> 6 then Inr True
      else
        (case py_int (case env of None \<Rightarrow> ''300'' | Some v \<Rightarrow> v) of
           Inl e \<Rightarrow> Inl e
         | Inr max_duration \<Rightarrow>
             (let elapsed = total_seconds (now - start_time session) in
              if elapsed \<ge> of_int max_duration then Inr True else Inr False)))"

definition scenario_context :: "Session \<Rightarrow> string" where
  "scenario_context session =
     ''Current scenario: '' @ primary_topic (scenario session) @
     ''\<newline>Context: '' @ context_text (scenario session) @
     ''\<newline>Your first question was: '' @ initial_prompt (scenario session)"

definition history_messages :: "Message list \<Rightarrow> chat_message list" where
  "history_messages history =
     map (\<lambda>msg. ChatMessage (if role msg = MANAGER then ''assistant'' else ''user'')
                              (content msg)) history"

definition surprise_instruction :: "string \<Rightarrow> string" where
  "surprise_instruction element =
     ''\<newline>\<newline>Now introduce this element naturally: '' @ element"

text \<open>
  \<open>messages[-1]["content"] += text\<close>. The list it is applied to always ends with the
  message of the user.
\<close>

definition append_to_last_content :: "chat_message list \<Rightarrow> string \<Rightarrow> chat_message list" where
  "append_to_last_content messages text =
     butlast messages @
     [ChatMessage (chat_role (last messages)) (chat_content (last messages) @ text)]"

text \<open>
  The body of the \<open>try\<close> block of \<open>get_manager_response\<close> up to the call of the language
  model: the request that is sent and the end-of-session flag, or the exception raised
  on the way.
\<close>

definition build_request ::
  "string option \<Rightarrow> datetime \<Rightarrow> Session \<Rightarrow> string \<Rightarrow> py_error + (chat_message list \<times> bool)" where
  "build_request env now session user_message =
     (let messages =
            [ChatMessage ''system'' SYSTEM_PROMPT,
             ChatMessage ''system'' (scenario_context session)] @
            history_messages (conversation_history session) @
            [ChatMessage ''user'' user_message];
          exchange_count = length (conversation_history session) div 2;
          messages =
            (if truthy (surprise_element (scenario session)) \<and>
                exchange_count \<ge> 2 \<and>
                exchange_count \<le> 4 \<and>
                \<not> surprise_already_introduced session
             then
               (case surprise_element (scenario session) of
                  None \<Rightarrow> messages
                | Some element \<Rightarrow>
                    append_to_last_content messages (surprise_instruction element))
             else messages)
      in case should_end_conversation env now session of
           Inl e \<Rightarrow> Inl e
         | Inr should_end \<Rightarrow>
             Inr (if should_end
                  then messages @ [ChatMessage ''system'' WRAP_UP_INSTRUCTION]
                  else messages,
                  should_end))"

text \<open>
  \<open>get_manager_response\<close>. The language model is the argument \<open>client\<close>: it maps the
  request to the text \<open>response.choices[0].message.content\<close>, or to the exception that the
  call or the reading of that text raises. Every exception of the \<open>try\<close> block ends in the
  fallback reply with the flag \<open>False\<close>.
\<close>

definition get_manager_response ::
  "(chat_message list \<Rightarrow> py_error + string) \<Rightarrow> string option \<Rightarrow> datetime \<Rightarrow>
   Session \<Rightarrow> string \<Rightarrow> string \<times> bool" where
  "get_manager_response client env now session user_message =
     (case build_request env now session user_message of
        Inl e \<Rightarrow> (FALLBACK_RESPONSE, False)
      | Inr (messages, should_end) \<Rightarrow>
          (case client messages of
             Inl e \<Rightarrow> (FALLBACK_RESPONSE, False)
           | Inr text \<Rightarrow> (strip text, should_end)))"

section \<open>The performance scorer (feedback_analyzer.py)\<close>

text \<open>
  The scores are Python floats in the source. They are exact decimal fractions here:
  the fixed scores, the clamping bounds and the comparisons of the code are the same on
  both.
\<close>

record Feedback =
  clarity_score :: rat
  fluency_score :: rat
  professional_score :: rat
  improvement_tip :: string
  detailed_analysis :: "string option"

definition generate_default_feedback :: Feedback where
  "generate_default_feedback = \<lparr>
     clarity_score = 7,
     fluency_score = 7,
     professional_score = 7,
     improvement_tip =
       ''Great practice session! Focus on being more specific when describing your '' @
       ''work and any blockers you encounter.'',
     detailed_analysis = None\<rparr>"

text \<open>
  \<open>re.search(pattern, text, re.IGNORECASE)\<close> tries the pattern at every position from the
  left and returns the first match. \<open>match_ignorecase\<close> matches literal text without regard
  to case and returns what follows it.
\<close>

fun re_search :: "(string \<Rightarrow> 'a option) \<Rightarrow> string \<Rightarrow> 'a option" where
  "re_search match_at [] = match_at []"
| "re_search match_at (c # cs) =
     (case match_at (c # cs) of
        Some g \<Rightarrow> Some g
      | None \<Rightarrow> re_search match_at cs)"

fun match_ignorecase :: "string \<Rightarrow> string \<Rightarrow> string option" where
  "match_ignorecase [] text = Some text"
| "match_ignorecase (p # ps) [] = None"
| "match_ignorecase (p # ps) (c # cs) =
     (if lower_char p = lower_char c then match_ignorecase ps cs else None)"

text \<open>
  The pattern \<open>CATEGORY:\s*(\d+(?:\.\d+)?)\<close> at the start of \<open>text\<close>; the result is group 1.
\<close>

definition score_match_at :: "string \<Rightarrow> string \<Rightarrow> string option" where
  "score_match_at category text =
     (case match_ignorecase (category @ '':'') text of
        None \<Rightarrow> None
      | Some rest \<Rightarrow>
          (let digits = dropWhile is_space rest;
               whole = takeWhile is_digit digits;
               after = dropWhile is_digit digits
           in if whole = [] then None
              else
                (case after of
                   [] \<Rightarrow> Some whole
                 | c # cs \<Rightarrow>
                     if c = CHR ''.'' \<and> takeWhile is_digit cs \<noteq> []
                     then Some (whole @ [c] @ takeWhile is_digit cs)
                     else Some whole)))"

fun digits_nat :: "nat \<Rightarrow> string \<Rightarrow> nat" where
  "digits_nat acc [] = acc"
| "digits_nat acc (c # cs) = digits_nat (acc * 10 + (of_char c - 48)) cs"

text \<open>\<open>float(text)\<close> for text of the form matched by group 1 above.\<close>

definition py_float :: "string \<Rightarrow> rat" where
  "py_float text =
     (let whole = takeWhile is_digit text;
          fraction = drop 1 (dropWhile is_digit text)
      in of_nat (digits_nat 0 whole) + of_nat (digits_nat 0 fraction) / 10 ^ length fraction)"

definition extract_score :: "string \<Rightarrow> string \<Rightarrow> rat" where
  "extract_score text category =
     (case re_search (score_match_at category) text of
        Some g \<Rightarrow> (let score = py_float g in min (max score 0) 10)
      | None \<Rightarrow> 7)"

text \<open>
  The pattern \<open>ONE_IMPROVEMENT:\s*(.+?)(?:\n\n|\Z)\<close> with \<open>re.DOTALL\<close> at the start of
  \<open>text\<close>. The group is the shortest non-empty text that is followed by an empty line or
  by the end. When only white space follows the label, the greedy \<open>\s*\<close> gives its last
  character back to the group.
\<close>

fun until_blank_line :: "string \<Rightarrow> string" where
  "until_blank_line [] = []"
| "until_blank_line (c # cs) =
     (if prefix ''\<newline>\<newline>'' (c # cs) then [] else c # until_blank_line cs)"

definition improvement_match_at :: "string \<Rightarrow> string option" where
  "improvement_match_at text =
     (case match_ignorecase ''ONE_IMPROVEMENT:'' text of
        None \<Rightarrow> None
      | Some rest \<Rightarrow>
          (case dropWhile is_space rest of
             c # cs \<Rightarrow> Some (c # until_blank_line cs)
           | [] \<Rightarrow> if rest = [] then None else Some [last rest]))"

definition extract_improvement :: "string \<Rightarrow> string" where
  "extract_improvement text =
     (case re_search improvement_match_at text of
        Some g \<Rightarrow> strip g
      | None \<Rightarrow> ''Practice being more specific when describing your work and challenges.'')"

fun join :: "string \<Rightarrow> string list \<Rightarrow> string" where
  "join sep [] = []"
| "join sep [x] = x"
| "join sep (x # y # ys) = x @ sep @ join sep (y # ys)"

definition COACH_PROMPT :: string where
  "COACH_PROMPT = ''You are an expert English communication coach for workplace scenarios.''"

definition analysis_prompt :: "Session \<Rightarrow> string list \<Rightarrow> string" where
  "analysis_prompt session user_messages =
     (let conversation_text = join ''\<newline>'' (map (\<lambda>msg. ''User: '' @ msg) user_messages);
          scenario_context =
            ''Scenario: '' @ primary_topic (scenario session) @
            ''\<newline>Context: '' @ context_text (scenario session)
      in ''Analyze this workplace 1:1 conversation for a non-native English speaker '' @
         ''practicing professional communication.\<newline>'' @
         ''\<newline>'' @
         scenario_context @
         ''\<newline>'' @
         ''\<newline>'' @
         ''Conversation:\<newline>'' @
         conversation_text @
         ''\<newline>'' @
         ''\<newline>'' @
         ''Evaluate on three dimensions (score 0-10):\<newline>'' @
         ''\<newline>'' @
         ''1. CLARITY (0-10): Did they clearly communicate their main point? Were '' @
         ''they specific or vague?\<newline>'' @
         ''2. FLUENCY (0-10): Natural flow, minimal filler words, coherent sentences\<newline>'' @
         ''3. PROFESSIONAL (0-10): Workplace-appropriate language, professional tone\<newline>'' @
         ''\<newline>'' @
         ''Provide scores and identify THE MOST IMPORTANT improvement area. Return '' @
         ''ONLY ONE specific, actionable tip.\<newline>'' @
         ''\<newline>'' @
         ''Format your response as:\<newline>'' @
         ''CLARITY: [score]\<newline>'' @
         ''FLUENCY: [score]\<newline>'' @
         ''PROFESSIONAL: [score]\<newline>'' @
         ''ONE_IMPROVEMENT: [one specific actionable tip in 1-2 sentences]'')"

definition analysis_request :: "Session \<Rightarrow> string list \<Rightarrow> chat_message list" where
  "analysis_request session user_messages =
     [ChatMessage ''system'' COACH_PROMPT,
      ChatMessage ''user'' (analysis_prompt session user_messages)]"

text \<open>
  \<open>analyze_conversation\<close>. As in the conversation engine, the language model is the
  argument \<open>client\<close>, and every exception of the \<open>try\<close> block ends in the default feedback.
\<close>

definition analyze_conversation ::
  "(chat_message list \<Rightarrow> py_error + string) \<Rightarrow> Session \<Rightarrow> Feedback" where
  "analyze_conversation client session =
     (let user_messages =
            map content (filter (\<lambda>msg. role msg = USER) (conversation_history session))
      in if user_messages = [] then generate_default_feedback
         else
           (case client (analysis_request session user_messages) of
              Inl e \<Rightarrow> generate_default_feedback
            | Inr text \<Rightarrow>
                (let analysis_text = strip text in
                 \<lparr>clarity_score = extract_score analysis_text ''CLARITY'',
                  fluency_score = extract_score analysis_text ''FLUENCY'',
                  professional_score = extract_score analysis_text ''PROFESSIONAL'',
                  improvement_tip = extract_improvement analysis_text,
                  detailed_analysis = Some analysis_text\<rparr>)))"

section \<open>The endpoints and the session store (main.py)\<close>

text \<open>
  The session store is an \<open>OrderedDict\<close>: a list of key-value pairs in insertion order.
  Assigning to a key that is present replaces its value where it stands; a new key goes to
  the end. \<open>popitem(last=False)\<close> removes the first pair; main.py calls it only on a
  store of more than \<open>MAX_SESSIONS_IN_MEMORY\<close> pairs.
\<close>

type_synonym 'v ordered_dict = "(string \<times> 'v) list"

definition od_get :: "'v ordered_dict \<Rightarrow> string \<Rightarrow> 'v option" where
  "od_get d k = map_of d k"

fun od_set :: "string \<Rightarrow> 'v \<Rightarrow> 'v ordered_dict \<Rightarrow> 'v ordered_dict" where
  "od_set k v [] = [(k, v)]"
| "od_set k v (p # d) = (if fst p = k then (k, v) # d else p # od_set k v d)"

definition od_popitem_first :: "'v ordered_dict \<Rightarrow> 'v ordered_dict" where
  "od_popitem_first d = drop 1 d"

definition od_del :: "string \<Rightarrow> 'v ordered_dict \<Rightarrow> 'v ordered_dict" where
  "od_del k d = filter (\<lambda>p. fst p \<noteq> k) d"

record State =
  sessions :: "Session ordered_dict"
  user_progress :: UserProgress

definition MAX_SESSIONS_IN_MEMORY :: nat where
  "MAX_SESSIONS_IN_MEMORY = 100"

definition new_user_progress :: UserProgress where
  "new_user_progress = \<lparr>
     total_sessions = 0,
     current_complexity = EASY,
     streak_days = 0,
     last_session_date = None\<rparr>"

definition initial_state :: State where
  "initial_state = \<lparr>sessions = [], user_progress = new_user_progress\<rparr>"

text \<open>
  What a request takes from outside the program: the two language-model services, the
  environment variable \<open>MAX_SESSION_DURATION\<close>, the readings of the clock in the order of
  the \<open>datetime.now()\<close> calls of the endpoint (the reading of the end-of-session test is
  number 1 of its request), the identifier \<open>uuid.uuid4()\<close> draws and the draw of
  \<open>random.choice\<close>. The module constant \<open>USE_MOCK_MODE\<close> is \<open>False\<close> and is never assigned
  again, so the endpoints call \<open>get_manager_response\<close> and \<open>analyze_conversation\<close>.
\<close>

record World =
  dialogue_model :: "chat_message list \<Rightarrow> py_error + string"
  scorer_model :: "chat_message list \<Rightarrow> py_error + string"
  max_session_duration_env :: "string option"
  clock :: "nat \<Rightarrow> datetime"
  uuid4 :: string
  random_draw :: nat

datatype StartSessionResponse =
  StartSessionResponse string string string "string list"

datatype GetManagerResponseResponse =
  GetManagerResponseResponse (manager_response: string) (should_end_session: bool)

datatype GetFeedbackResponse =
  GetFeedbackResponse rat rat rat string

text \<open>
  In \<open>start_session\<close> the one statement of the \<open>try\<close> block that can raise is the selection
  of the scenario, and what it raises is the \<open>IndexError\<close> of \<open>random.choice\<close>, whose text
  is part of the detail of the response.
\<close>

definition start_session :: "World \<Rightarrow> State \<Rightarrow> (py_error + StartSessionResponse) \<times> State" where
  "start_session w st =
     (case select_scenario_for_user (user_progress st) (random_draw w) of
        Inl e \<Rightarrow>
          (Inl (HTTPException 500
             (''Failed to start session: '' @ ''Cannot choose from an empty sequence'')), st)
      | Inr chosen \<Rightarrow>
          (let new_id = uuid4 w;
               session = \<lparr>
                 session_id = new_id,
                 scenario = chosen,
                 conversation_history = [],
                 start_time = clock w 0,
                 is_active = True\<rparr>;
               initial_message = \<lparr>
                 role = MANAGER,
                 content = initial_prompt chosen,
                 timestamp = clock w 1\<rparr>;
               session = session\<lparr>conversation_history :=
                 conversation_history session @ [initial_message]\<rparr>;
               stored = od_set new_id session (sessions st);
               stored = (if length stored > MAX_SESSIONS_IN_MEMORY
                         then od_popitem_first stored else stored)
           in (Inr (StartSessionResponse new_id (context_text chosen)
                      (initial_prompt chosen) (helpful_phrases chosen)),
               st\<lparr>sessions := stored\<rparr>)))"

text \<open>
  The endpoint of a user turn works on the session object the store holds: what it appends
  and the flag it clears are seen through the store, at the place the session has there.
\<close>

definition get_manager_response_endpoint ::
  "World \<Rightarrow> string \<Rightarrow> string \<Rightarrow> State \<Rightarrow> (py_error + GetManagerResponseResponse) \<times> State" where
  "get_manager_response_endpoint w request_session_id request_user_message st =
     (case od_get (sessions st) request_session_id of
        None \<Rightarrow> (Inl (HTTPException 404 ''Session not found''), st)
      | Some session \<Rightarrow>
          if \<not> is_active session then
            (Inl (HTTPException 400 ''Session is no longer active''), st)
          else
            (let user_message = \<lparr>
                   role = USER,
                   content = request_user_message,
                   timestamp = clock w 0\<rparr>;
                 session = session\<lparr>conversation_history :=
                   conversation_history session @ [user_message]\<rparr>;
                 (reply, should_end) =
                   get_manager_response (dialogue_model w) (max_session_duration_env w)
                     (clock w 1) session request_user_message;
                 manager_message = \<lparr>
                   role = MANAGER,
                   content = reply,
                   timestamp = clock w 2\<rparr>;
                 session = session\<lparr>conversation_history :=
                   conversation_history session @ [manager_message]\<rparr>;
                 session = (if should_end then session\<lparr>is_active := False\<rparr> else session)
             in (Inr (GetManagerResponseResponse reply should_end),
                 st\<lparr>sessions := od_set request_session_id session (sessions st)\<rparr>)))"

definition get_feedback :: "World \<Rightarrow> string \<Rightarrow> State \<Rightarrow> (py_error + GetFeedbackResponse) \<times> State" where
  "get_feedback w request_session_id st =
     (case od_get (sessions st) request_session_id of
        None \<Rightarrow> (Inl (HTTPException 404 ''Session not found''), st)
      | Some session \<Rightarrow>
          (let feedback = analyze_conversation (scorer_model w) session;
               progress = user_progress st;
               progress = progress\<lparr>total_sessions := total_sessions progress + 1\<rparr>;
               progress = progress\<lparr>last_session_date := Some (clock w 0)\<rparr>;
               progress = progress\<lparr>current_complexity := determine_next_complexity progress\<rparr>;
               progress = (if total_sessions progress > 0
                           then progress\<lparr>streak_days := 1\<rparr> else progress)
           in (Inr (GetFeedbackResponse (clarity_score feedback) (fluency_score feedback)
                      (professional_score feedback) (improvement_tip feedback)),
               st\<lparr>user_progress := progress\<rparr>)))"

definition delete_session :: "string \<Rightarrow> State \<Rightarrow> (py_error + string) \<times> State" where
  "delete_session request_session_id st =
     (if request_session_id \<in> fst ` set (sessions st) then
        (Inr ''Session deleted successfully'',
         st\<lparr>sessions := od_del request_session_id (sessions st)\<rparr>)
      else (Inl (HTTPException 404 ''Session not found''), st))"

definition reset_progress :: "State \<Rightarrow> string \<times> State" where
  "reset_progress st =
     (''Progress reset successfully'',
      st\<lparr>user_progress := new_user_progress, sessions := []\<rparr>)"

text \<open>The states the program can be in: what the endpoints make of the initial state.\<close>

inductive reachable :: "State \<Rightarrow> bool" where
  reachable_initial: "reachable initial_state"
| reachable_start: "reachable st \<Longrightarrow> reachable (snd (start_session w st))"
| reachable_turn:
    "reachable st \<Longrightarrow> reachable (snd (get_manager_response_endpoint w sid text st))"
| reachable_feedback: "reachable st \<Longrightarrow> reachable (snd (get_feedback w sid st))"
| reachable_delete: "reachable st \<Longrightarrow> reachable (snd (delete_session sid st))"
| reachable_reset: "reachable st \<Longrightarrow> reachable (snd (reset_progress st))"

section \<open>Example data\<close>

text \<open>
  A stored session on the first MEDIUM scenario, just opened and after eleven turns, and two
  worlds: one whose language model always fails, one whose model always answers.
\<close>

definition demo_opening :: Message where
  "demo_opening = \<lparr>role = MANAGER, content = initial_prompt scenario_medium_1, timestamp = 0\<rparr>"

definition demo_session :: Session where
  "demo_session = \<lparr>
     session_id = ''s1'',
     scenario = scenario_medium_1,
     conversation_history = [demo_opening],
     start_time = 0,
     is_active = True\<rparr>"

definition demo_state :: State where
  "demo_state = \<lparr>sessions = [(''s1'', demo_session)], user_progress = new_user_progress\<rparr>"

definition failing_model :: "chat_message list \<Rightarrow> py_error + string" where
  "failing_model messages = Inl (OtherException ''timeout'')"

definition replying_model :: "chat_message list \<Rightarrow> py_error + string" where
  "replying_model messages = Inr ''Thanks for the update. ''"

definition failing_world :: World where
  "failing_world = \<lparr>
     dialogue_model = failing_model,
     scorer_model = failing_model,
     max_session_duration_env = None,
     clock = int,
     uuid4 = ''s2'',
     random_draw = 0\<rparr>"

definition replying_world :: World where
  "replying_world = \<lparr>
     dialogue_model = replying_model,
     scorer_model = replying_model,
     max_session_duration_env = None,
     clock = int,
     uuid4 = ''s2'',
     random_draw = 0\<rparr>"

definition demo_long_session :: Session where
  "demo_long_session = demo_session\<lparr>conversation_history := replicate 11 demo_opening\<rparr>"

definition demo_long_state :: State where
  "demo_long_state = demo_state\<lparr>sessions := [(''s1'', demo_long_session)]\<rparr>"

text \<open>
  A store filled by successive \<open>start_session\<close> calls that draw the identifiers
  \<open>#\<close>, \<open>##\<close>, \<open>###\<close> and so on.
\<close>

definition numbered_id :: "nat \<Rightarrow> string" where
  "numbered_id i = replicate (Suc i) (CHR ''#'')"

definition filling_world :: "nat \<Rightarrow> World" where
  "filling_world i = replying_world\<lparr>uuid4 := numbered_id i\<rparr>"

fun filled_state :: "nat \<Rightarrow> State" where
  "filled_state 0 = initial_state"
| "filled_state (Suc n) = snd (start_session (filling_world n) (filled_state n))"

text \<open>
  Two sessions at their second exchange: in one no manager turn has a keyword of the
  surprise element, in the other a manager turn says "ABOUT".
\<close>

definition demo_turn :: "MessageRole \<Rightarrow> string \<Rightarrow> Message" where
  "demo_turn r c = \<lparr>role = r, content = c, timestamp = 0\<rparr>"

definition demo_quiet_session :: Session where
  "demo_quiet_session = demo_session\<lparr>conversation_history :=
     [demo_opening, demo_turn USER ''Slowly.'', demo_turn MANAGER ''Why is that?'',
      demo_turn USER ''The docs are wrong.'']\<rparr>"

definition demo_told_session :: Session where
  "demo_told_session = demo_session\<lparr>conversation_history :=
     [demo_opening, demo_turn USER ''Slowly.'', demo_turn MANAGER ''What ABOUT the deadline?'',
      demo_turn USER ''It moves by two days.'']\<rparr>"

section \<open>Scenario selection: the tier rule\<close>

lemma tier_of_scenario [simp]:
  "complexity_level scenario_easy_1 = EASY"
  "complexity_level scenario_easy_2 = EASY"
  "complexity_level scenario_easy_3 = EASY"
  "complexity_level scenario_medium_1 = MEDIUM"
  "complexity_level scenario_medium_2 = MEDIUM"
  "complexity_level scenario_medium_3 = MEDIUM"
  "complexity_level scenario_medium_4 = MEDIUM"
  "complexity_level scenario_medium_5 = MEDIUM"
  "complexity_level scenario_hard_1 = HARD"
  "complexity_level scenario_hard_2 = HARD"
  "complexity_level scenario_hard_3 = HARD"
  "complexity_level scenario_hard_4 = HARD"
  "complexity_level scenario_hard_5 = HARD"
  "complexity_level scenario_hard_6 = HARD"
  by (simp_all add: scenario_easy_1_def scenario_easy_2_def scenario_easy_3_def
  scenario_medium_1_def scenario_medium_2_def scenario_medium_3_def
  scenario_medium_4_def scenario_medium_5_def
  scenario_hard_1_def scenario_hard_2_def scenario_hard_3_def
  scenario_hard_4_def scenario_hard_5_def scenario_hard_6_def)

lemma scenarios_by_tier:
  "get_scenarios_by_complexity EASY = [scenario_easy_1, scenario_easy_2, scenario_easy_3]"
  "get_scenarios_by_complexity MEDIUM =
     [scenario_medium_1, scenario_medium_2, scenario_medium_3, scenario_medium_4,
      scenario_medium_5]"
  "get_scenarios_by_complexity HARD =
     [scenario_hard_1, scenario_hard_2, scenario_hard_3, scenario_hard_4, scenario_hard_5,
      scenario_hard_6]"
  by (simp_all add: get_scenarios_by_complexity_def SCENARIOS_def)

lemma choice_in_tier:
  "\<exists>s. random_choice r (get_scenarios_by_complexity c) = Inr s \<and> complexity_level s = c"
proof -
  have ne: "get_scenarios_by_complexity c \<noteq> []"
    by (cases c) (simp_all add: scenarios_by_tier)
  then have "get_scenarios_by_complexity c ! (r mod length (get_scenarios_by_complexity c))
      \<in> set (get_scenarios_by_complexity c)"
    by simp
  then have "complexity_level
      (get_scenarios_by_complexity c ! (r mod length (get_scenarios_by_complexity c))) = c"
    unfolding get_scenarios_by_complexity_def by simp
  with ne show ?thesis
    by (simp add: random_choice_def)
qed

lemma select_scenario_piecewise:
  "\<exists>s. select_scenario_for_user p r = Inr s \<and>
     complexity_level s =
       (if total_sessions p < 2 then EASY
        else if total_sessions p < 5 then MEDIUM
        else if total_sessions p mod 3 = 0 then HARD else MEDIUM)"
  using choice_in_tier [of r EASY] choice_in_tier [of r MEDIUM] choice_in_tier [of r HARD]
  by (simp add: select_scenario_for_user_def)

lemma tier_rule_cases:
  fixes t :: int and third :: bool and lvl :: ComplexityLevel
  assumes "lvl = (if t < 2 then EASY else if t < 5 then MEDIUM
                  else if third then HARD else MEDIUM)"
  shows "(lvl = EASY) = (t < 2)"
    and "(lvl = MEDIUM) = (2 \<le> t \<and> (t < 5 \<or> \<not> third))"
    and "(lvl = HARD) = (5 \<le> t \<and> third)"
proof -
  show "(lvl = EASY) = (t < 2)"
    using assms by (cases "t < 2"; cases "t < 5"; cases third) simp_all
  show "(lvl = MEDIUM) = (2 \<le> t \<and> (t < 5 \<or> \<not> third))"
    using assms by (cases "t < 2"; cases "t < 5"; cases third) simp_all
  show "(lvl = HARD) = (5 \<le> t \<and> third)"
    using assms by (cases "t < 2"; cases "t < 5"; cases third) simp_all
qed

text \<open>
  Claim C2. Whatever the random draw, \<open>select_scenario_for_user\<close> returns a scenario, and
  with \<open>t\<close> the number of completed sessions its tier is EASY exactly when \<open>t < 2\<close>, HARD
  exactly when \<open>t \<ge> 5\<close> and \<open>t\<close> is a multiple of 3, and MEDIUM exactly in the remaining
  cases: \<open>2 \<le> t < 5\<close>, or \<open>t \<ge> 5\<close> and \<open>t\<close> not a multiple of 3.
\<close>

theorem select_scenario_for_user_tier:
  "\<exists>s. select_scenario_for_user p r = Inr s \<and>
     (complexity_level s = EASY) = (total_sessions p < 2) \<and>
     (complexity_level s = MEDIUM) =
        (2 \<le> total_sessions p \<and> (total_sessions p < 5 \<or> total_sessions p mod 3 \<noteq> 0)) \<and>
     (complexity_level s = HARD) = (5 \<le> total_sessions p \<and> total_sessions p mod 3 = 0)"
proof -
  obtain s where s: "select_scenario_for_user p r = Inr s"
    and tier: "complexity_level s =
       (if total_sessions p < 2 then EASY
        else if total_sessions p < 5 then MEDIUM
        else if total_sessions p mod 3 = 0 then HARD else MEDIUM)"
    using select_scenario_piecewise [of p r] by (elim exE conjE)
  show ?thesis
    by (rule exI [of _ s], intro conjI, rule s, (rule tier_rule_cases [OF tier])+)
qed

theorem select_scenario_for_user_tier_witness:
  "\<exists>s. select_scenario_for_user (new_user_progress\<lparr>total_sessions := 6\<rparr>) 0 = Inr s \<and>
        complexity_level s = HARD"
proof -
  obtain s where s: "select_scenario_for_user (new_user_progress\<lparr>total_sessions := 6\<rparr>) 0 = Inr s"
    and hard: "(complexity_level s = HARD) =
      (5 \<le> total_sessions (new_user_progress\<lparr>total_sessions := 6\<rparr>) \<and>
       total_sessions (new_user_progress\<lparr>total_sessions := 6\<rparr>) mod 3 = 0)"
    using select_scenario_for_user_tier [of "new_user_progress\<lparr>total_sessions := 6\<rparr>" 0]
    by (elim exE conjE)
  from hard have "complexity_level s = HARD" by simp
  with s show ?thesis by (intro exI conjI)
qed

text \<open>
  Claim C1, as stated, fails: after seven completed sessions the selector picks a MEDIUM
  scenario, and \<open>determine_next_complexity\<close> answers HARD.
\<close>

theorem determine_next_complexity_differs_at_7:
  "map_sum id complexity_level
     (select_scenario_for_user (new_user_progress\<lparr>total_sessions := 7\<rparr>) 0) = Inr MEDIUM \<and>
   determine_next_complexity (new_user_progress\<lparr>total_sessions := 7\<rparr>) = HARD"
  by (simp add: select_scenario_for_user_def determine_next_complexity_def
      scenarios_by_tier random_choice_def)

text \<open>
  Claim C1, amended. \<open>determine_next_complexity\<close> has the two boundaries of the selector,
  2 and 5, and no rule of three: it answers EASY below 2, MEDIUM from 2 to 4, and HARD
  from 5 on. So its answer is the tier of the scenario the selector picks exactly when
  fewer than 5 sessions are completed or their number is a multiple of 3.
\<close>

theorem determine_next_complexity_vs_selector:
  "determine_next_complexity p =
     (if total_sessions p < 2 then EASY else if total_sessions p < 5 then MEDIUM else HARD) \<and>
   (\<exists>s. select_scenario_for_user p r = Inr s \<and>
      (determine_next_complexity p = complexity_level s) =
        (total_sessions p < 5 \<or> total_sessions p mod 3 = 0))"
proof -
  obtain s where s: "select_scenario_for_user p r = Inr s"
    and tier: "complexity_level s =
       (if total_sessions p < 2 then EASY
        else if total_sessions p < 5 then MEDIUM
        else if total_sessions p mod 3 = 0 then HARD else MEDIUM)"
    using select_scenario_piecewise [of p r] by (elim exE conjE)
  have agree: "(determine_next_complexity p = complexity_level s) =
        (total_sessions p < 5 \<or> total_sessions p mod 3 = 0)"
    unfolding tier determine_next_complexity_def
    by (cases "total_sessions p < 2"; cases "total_sessions p < 5";
        cases "total_sessions p mod 3 = 0") simp_all
  show ?thesis
    by (intro conjI exI [of _ s], simp only: determine_next_complexity_def, rule s, rule agree)
qed

theorem determine_next_complexity_vs_selector_witness:
  "\<exists>s. select_scenario_for_user (new_user_progress\<lparr>total_sessions := 8\<rparr>) 3 = Inr s \<and>
      determine_next_complexity (new_user_progress\<lparr>total_sessions := 8\<rparr>) \<noteq> complexity_level s"
proof -
  obtain s where s: "select_scenario_for_user (new_user_progress\<lparr>total_sessions := 8\<rparr>) 3 = Inr s"
    and agree: "(determine_next_complexity (new_user_progress\<lparr>total_sessions := 8\<rparr>) =
        complexity_level s) =
      (total_sessions (new_user_progress\<lparr>total_sessions := 8\<rparr>) < 5 \<or>
       total_sessions (new_user_progress\<lparr>total_sessions := 8\<rparr>) mod 3 = 0)"
    using determine_next_complexity_vs_selector [of "new_user_progress\<lparr>total_sessions := 8\<rparr>" 3]
    by (elim exE conjE)
  from agree have "determine_next_complexity (new_user_progress\<lparr>total_sessions := 8\<rparr>) \<noteq>
      complexity_level s" by simp
  with s show ?thesis by (intro exI conjI)
qed

section \<open>The session store\<close>

lemma od_get_od_set_same: "od_get (od_set k v d) k = Some v"
  by (induction d) (simp_all add: od_get_def)

lemma od_get_od_set_other: "k' \<noteq> k \<Longrightarrow> od_get (od_set k v d) k' = od_get d k'"
  by (induction d) (simp_all add: od_get_def)

lemma keys_od_set_present:
  "k \<in> fst ` set d \<Longrightarrow> map fst (od_set k v d) = map fst d"
  by (induction d) auto

lemma od_get_Some_key: "od_get d k = Some v \<Longrightarrow> k \<in> fst ` set d"
  unfolding od_get_def by (metis map_of_SomeD fst_conv image_eqI)

lemma demo_lookup: "od_get (sessions demo_state) ''s1'' = Some demo_session"
  by (simp add: demo_state_def od_get_def)

lemma demo_active: "is_active demo_session"
  by (simp add: demo_session_def)

section \<open>A user turn\<close>

lemma keep_active:
  "is_active s \<Longrightarrow> s\<lparr>conversation_history := h, is_active := True\<rparr> =
     s\<lparr>conversation_history := h\<rparr>"
  by (cases s) simp

text \<open>What the endpoint does with a stored, active session, in one equation.\<close>

lemma endpoint_active:
  assumes "od_get (sessions st) sid = Some session" and "is_active session"
  shows "get_manager_response_endpoint w sid text st =
     (let s1 = session\<lparr>conversation_history := conversation_history session @
                 [\<lparr>role = USER, content = text, timestamp = clock w 0\<rparr>]\<rparr>;
          rf = get_manager_response (dialogue_model w) (max_session_duration_env w)
                 (clock w 1) s1 text
      in (Inr (GetManagerResponseResponse (fst rf) (snd rf)),
          st\<lparr>sessions := od_set sid
            (s1\<lparr>conversation_history := conversation_history s1 @
                 [\<lparr>role = MANAGER, content = fst rf, timestamp = clock w 2\<rparr>],
               is_active := \<not> snd rf\<rparr>) (sessions st)\<rparr>))"
  using assms
  by (simp add: get_manager_response_endpoint_def Let_def keep_active split: prod.splits)

lemma should_end_six:
  "length (conversation_history session) div 2 \<ge> 6 \<Longrightarrow>
   should_end_conversation env now session = Inr True"
  by (simp add: should_end_conversation_def Let_def)

lemma build_request_flag:
  "should_end_conversation env now session = Inr b \<Longrightarrow>
   \<exists>messages. build_request env now session text = Inr (messages, b)"
  by (simp add: build_request_def Let_def)

lemma get_manager_response_failure:
  assumes "build_request env now session text = Inr (messages, flag)"
    and "client messages = Inl e"
  shows "get_manager_response client env now session text = (FALLBACK_RESPONSE, False)"
  using assms by (simp add: get_manager_response_def)

lemma get_manager_response_failing:
  "get_manager_response failing_model env now session text = (FALLBACK_RESPONSE, False)"
  by (simp add: get_manager_response_def failing_model_def split: sum.splits prod.splits)

text \<open>
  Claim C3, as stated, fails where it says that a call during which the language model
  fails adds one turn: the turn of the user is appended before the model is called, and
  the fallback reply is appended after it, so the history grows by two turns.
\<close>

theorem collaborator_failure_appends_two_turns:
  "map_option conversation_history
     (od_get (sessions (snd (get_manager_response_endpoint failing_world ''s1'' ''Fine.''
        demo_state))) ''s1'') =
   Some [demo_opening,
         \<lparr>role = USER, content = ''Fine.'', timestamp = 0\<rparr>,
         \<lparr>role = MANAGER, content = FALLBACK_RESPONSE, timestamp = 2\<rparr>] \<and>
   length (conversation_history demo_session) = 1"
  by (simp add: endpoint_active [OF demo_lookup demo_active] Let_def od_get_od_set_same
      failing_world_def get_manager_response_failing demo_session_def)

text \<open>
  Claim C3, amended. For every stored, active session, every text and every behaviour of
  the language model, the call succeeds, and the history of the session afterwards is the
  history before followed by exactly one USER turn with the text and one MANAGER turn
  with the reply that is returned: two more turns, whether the model answered or failed.
  The session keeps its place in the store.
\<close>

theorem submit_turn_appends_user_then_manager:
  assumes "od_get (sessions st) sid = Some session" and "is_active session"
  shows "\<exists>reply ended.
     fst (get_manager_response_endpoint w sid text st) =
       Inr (GetManagerResponseResponse reply ended) \<and>
     od_get (sessions (snd (get_manager_response_endpoint w sid text st))) sid =
       Some (session\<lparr>conversation_history := conversation_history session @
               [\<lparr>role = USER, content = text, timestamp = clock w 0\<rparr>,
                \<lparr>role = MANAGER, content = reply, timestamp = clock w 2\<rparr>],
             is_active := \<not> ended\<rparr>) \<and>
     map fst (sessions (snd (get_manager_response_endpoint w sid text st))) =
       map fst (sessions st)"
  by (simp add: endpoint_active [OF assms] Let_def od_get_od_set_same
      keys_od_set_present [OF od_get_Some_key [OF assms(1)]])

theorem submit_turn_appends_user_then_manager_witness:
  "\<exists>reply ended.
     od_get (sessions (snd (get_manager_response_endpoint replying_world ''s1'' ''Fine.''
        demo_state))) ''s1'' =
       Some (demo_session\<lparr>conversation_history := conversation_history demo_session @
               [\<lparr>role = USER, content = ''Fine.'', timestamp = clock replying_world 0\<rparr>,
                \<lparr>role = MANAGER, content = reply, timestamp = clock replying_world 2\<rparr>],
             is_active := \<not> ended\<rparr>)"
  using submit_turn_appends_user_then_manager [OF demo_lookup demo_active, of replying_world "''Fine.''"]
  by blast

text \<open>
  Claim C4. When the history handed to the engine (the turn of the user included, the
  reply not yet) has six or more exchanges, the end-of-session test is true whatever the
  clock and the environment say, and the request sent to the model on this same call ends
  with the wrap-up instruction.
\<close>

theorem should_end_at_six_exchanges:
  assumes "length (conversation_history session) div 2 \<ge> 6"
  shows "should_end_conversation env now session = Inr True \<and>
         (\<exists>messages. build_request env now session user_message =
            Inr (messages @ [ChatMessage ''system'' WRAP_UP_INSTRUCTION], True))"
  using assms by (simp add: build_request_def should_end_six Let_def)

theorem should_end_at_six_exchanges_witness:
  "should_end_conversation (Some ''not a number'') 0
     (demo_session\<lparr>conversation_history := replicate 12 demo_opening\<rparr>) = Inr True"
  using should_end_at_six_exchanges
    [of "demo_session\<lparr>conversation_history := replicate 12 demo_opening\<rparr>"
        "Some ''not a number''" 0 "''Bye''"]
  by simp

text \<open>
  Claim C5. A user turn submitted to a stored session that has ended is answered with the
  error 400 "Session is no longer active", and the state of the program is the one before
  the call: nothing is appended and the session stays ended.
\<close>

theorem inactive_session_rejected:
  assumes "od_get (sessions st) sid = Some session" and "\<not> is_active session"
  shows "get_manager_response_endpoint w sid text st =
           (Inl (HTTPException 400 ''Session is no longer active''), st)"
  using assms by (simp add: get_manager_response_endpoint_def)

theorem inactive_session_rejected_witness:
  "get_manager_response_endpoint replying_world ''s1'' ''One more thing''
     (demo_state\<lparr>sessions := [(''s1'', demo_session\<lparr>is_active := False\<rparr>)]\<rparr>) =
   (Inl (HTTPException 400 ''Session is no longer active''),
    demo_state\<lparr>sessions := [(''s1'', demo_session\<lparr>is_active := False\<rparr>)]\<rparr>)"
  using inactive_session_rejected
    [of "demo_state\<lparr>sessions := [(''s1'', demo_session\<lparr>is_active := False\<rparr>)]\<rparr>"
        "''s1''" "demo_session\<lparr>is_active := False\<rparr>" replying_world "''One more thing''"]
  by (simp add: od_get_def)

text \<open>
  Claim C6. When the language model fails on the request of a user turn, the engine returns
  the fixed reply "I see. Can you tell me more about that?" with the end flag false; the
  endpoint returns the same, appends the reply as a MANAGER turn and leaves the session
  active, also when the end-of-session test was true.
\<close>

theorem collaborator_failure_falls_back:
  assumes "od_get (sessions st) sid = Some session" and "is_active session"
    and "build_request (max_session_duration_env w) (clock w 1)
           (session\<lparr>conversation_history := conversation_history session @
              [\<lparr>role = USER, content = text, timestamp = clock w 0\<rparr>]\<rparr>) text =
         Inr (messages, flag)"
    and "dialogue_model w messages = Inl e"
  shows "get_manager_response (dialogue_model w) (max_session_duration_env w) (clock w 1)
           (session\<lparr>conversation_history := conversation_history session @
              [\<lparr>role = USER, content = text, timestamp = clock w 0\<rparr>]\<rparr>) text =
         (''I see. Can you tell me more about that?'', False) \<and>
     fst (get_manager_response_endpoint w sid text st) =
       Inr (GetManagerResponseResponse ''I see. Can you tell me more about that?'' False) \<and>
     od_get (sessions (snd (get_manager_response_endpoint w sid text st))) sid =
       Some (session\<lparr>conversation_history := conversation_history session @
               [\<lparr>role = USER, content = text, timestamp = clock w 0\<rparr>,
                \<lparr>role = MANAGER, content = ''I see. Can you tell me more about that?'',
                 timestamp = clock w 2\<rparr>],
             is_active := True\<rparr>)"
proof -
  have "get_manager_response (dialogue_model w) (max_session_duration_env w) (clock w 1)
           (session\<lparr>conversation_history := conversation_history session @
              [\<lparr>role = USER, content = text, timestamp = clock w 0\<rparr>]\<rparr>) text =
         (FALLBACK_RESPONSE, False)"
    using assms(3) assms(4) by (rule get_manager_response_failure [where client = "dialogue_model w"])
  then show ?thesis
    by (simp add: endpoint_active [OF assms(1) assms(2)] Let_def od_get_od_set_same
        FALLBACK_RESPONSE_def)
qed

theorem collaborator_failure_falls_back_witness:
  "fst (get_manager_response_endpoint failing_world ''s1'' ''Fine.'' demo_long_state) =
     Inr (GetManagerResponseResponse ''I see. Can you tell me more about that?'' False) \<and>
   map_option is_active
     (od_get (sessions (snd (get_manager_response_endpoint failing_world ''s1'' ''Fine.''
        demo_long_state))) ''s1'') = Some True"
proof -
  have stored: "od_get (sessions demo_long_state) ''s1'' = Some demo_long_session"
    by (simp add: demo_long_state_def od_get_def)
  have active: "is_active demo_long_session"
    by (simp add: demo_long_session_def demo_session_def)
  have "should_end_conversation (max_session_duration_env failing_world) (clock failing_world 1)
      (demo_long_session\<lparr>conversation_history := conversation_history demo_long_session @
         [\<lparr>role = USER, content = ''Fine.'', timestamp = clock failing_world 0\<rparr>]\<rparr>) = Inr True"
    by (rule should_end_six) (simp add: demo_long_session_def)
  then obtain messages where request:
    "build_request (max_session_duration_env failing_world) (clock failing_world 1)
      (demo_long_session\<lparr>conversation_history := conversation_history demo_long_session @
         [\<lparr>role = USER, content = ''Fine.'', timestamp = clock failing_world 0\<rparr>]\<rparr>) ''Fine.'' =
     Inr (messages, True)"
    using build_request_flag by blast
  have failure: "dialogue_model failing_world messages = Inl (OtherException ''timeout'')"
    by (simp add: failing_world_def failing_model_def)
  show ?thesis
    using collaborator_failure_falls_back [OF stored active request failure]
    by simp
qed

section \<open>The bound of the session store\<close>

lemma od_set_fresh: "k \<notin> fst ` set d \<Longrightarrow> od_set k v d = d @ [(k, v)]"
  by (induction d) auto

lemma keys_od_set:
  "map fst (od_set k v d) = (if k \<in> fst ` set d then map fst d else map fst d @ [k])"
  by (induction d) auto

lemma length_od_set: "length (od_set k v d) \<le> Suc (length d)"
  by (induction d) auto

lemma start_session_store:
  "\<exists>chosen. sessions (snd (start_session w st)) =
     (if length (od_set (uuid4 w)
           \<lparr>session_id = uuid4 w, scenario = chosen,
            conversation_history =
              [\<lparr>role = MANAGER, content = initial_prompt chosen, timestamp = clock w 1\<rparr>],
            start_time = clock w 0, is_active = True\<rparr> (sessions st))
         > MAX_SESSIONS_IN_MEMORY
      then od_popitem_first (od_set (uuid4 w)
           \<lparr>session_id = uuid4 w, scenario = chosen,
            conversation_history =
              [\<lparr>role = MANAGER, content = initial_prompt chosen, timestamp = clock w 1\<rparr>],
            start_time = clock w 0, is_active = True\<rparr> (sessions st))
      else od_set (uuid4 w)
           \<lparr>session_id = uuid4 w, scenario = chosen,
            conversation_history =
              [\<lparr>role = MANAGER, content = initial_prompt chosen, timestamp = clock w 1\<rparr>],
            start_time = clock w 0, is_active = True\<rparr> (sessions st))"
proof -
  obtain chosen where "select_scenario_for_user (user_progress st) (random_draw w) = Inr chosen"
    using select_scenario_piecewise [of "user_progress st" "random_draw w"] by (elim exE conjE)
  then have "sessions (snd (start_session w st)) =
     (if length (od_set (uuid4 w)
           \<lparr>session_id = uuid4 w, scenario = chosen,
            conversation_history =
              [\<lparr>role = MANAGER, content = initial_prompt chosen, timestamp = clock w 1\<rparr>],
            start_time = clock w 0, is_active = True\<rparr> (sessions st))
         > MAX_SESSIONS_IN_MEMORY
      then od_popitem_first (od_set (uuid4 w)
           \<lparr>session_id = uuid4 w, scenario = chosen,
            conversation_history =
              [\<lparr>role = MANAGER, content = initial_prompt chosen, timestamp = clock w 1\<rparr>],
            start_time = clock w 0, is_active = True\<rparr> (sessions st))
      else od_set (uuid4 w)
           \<lparr>session_id = uuid4 w, scenario = chosen,
            conversation_history =
              [\<lparr>role = MANAGER, content = initial_prompt chosen, timestamp = clock w 1\<rparr>],
            start_time = clock w 0, is_active = True\<rparr> (sessions st))"
    by (simp add: start_session_def Let_def)
  then show ?thesis by (rule exI)
qed

lemma turn_keeps_keys:
  "map fst (sessions (snd (get_manager_response_endpoint w sid text st))) = map fst (sessions st)"
proof (cases "od_get (sessions st) sid")
  case None
  then show ?thesis by (simp add: get_manager_response_endpoint_def)
next
  case (Some session)
  show ?thesis
  proof (cases "is_active session")
    case True
    show ?thesis
      by (simp add: endpoint_active [OF Some True] Let_def
          keys_od_set_present [OF od_get_Some_key [OF Some]])
  next
    case False
    with Some show ?thesis by (simp add: get_manager_response_endpoint_def)
  qed
qed

lemma feedback_keeps_store: "sessions (snd (get_feedback w sid st)) = sessions st"
  by (simp add: get_feedback_def Let_def split: option.splits)

text \<open>In every state the program can reach, the store is within its bound and has no key twice.\<close>

lemma reachable_store:
  "reachable st \<Longrightarrow>
   length (sessions st) \<le> MAX_SESSIONS_IN_MEMORY \<and> distinct (map fst (sessions st))"
proof (induction rule: reachable.induct)
  case reachable_initial
  show ?case by (simp add: initial_state_def)
next
  case (reachable_start st w)
  obtain chosen where chosen: "sessions (snd (start_session w st)) =
     (if length (od_set (uuid4 w)
           \<lparr>session_id = uuid4 w, scenario = chosen,
            conversation_history =
              [\<lparr>role = MANAGER, content = initial_prompt chosen, timestamp = clock w 1\<rparr>],
            start_time = clock w 0, is_active = True\<rparr> (sessions st))
         > MAX_SESSIONS_IN_MEMORY
      then od_popitem_first (od_set (uuid4 w)
           \<lparr>session_id = uuid4 w, scenario = chosen,
            conversation_history =
              [\<lparr>role = MANAGER, content = initial_prompt chosen, timestamp = clock w 1\<rparr>],
            start_time = clock w 0, is_active = True\<rparr> (sessions st))
      else od_set (uuid4 w)
           \<lparr>session_id = uuid4 w, scenario = chosen,
            conversation_history =
              [\<lparr>role = MANAGER, content = initial_prompt chosen, timestamp = clock w 1\<rparr>],
            start_time = clock w 0, is_active = True\<rparr> (sessions st))"
    using start_session_store [of w st] by (elim exE)
  define session where "session =
           \<lparr>session_id = uuid4 w, scenario = chosen,
            conversation_history =
              [\<lparr>role = MANAGER, content = initial_prompt chosen, timestamp = clock w 1\<rparr>],
            start_time = clock w 0, is_active = True\<rparr>"
  have store: "sessions (snd (start_session w st)) =
       (if length (od_set (uuid4 w) session (sessions st)) > MAX_SESSIONS_IN_MEMORY
        then od_popitem_first (od_set (uuid4 w) session (sessions st))
        else od_set (uuid4 w) session (sessions st))"
    using chosen unfolding session_def .
  have keys: "distinct (map fst (od_set (uuid4 w) session (sessions st)))"
    using reachable_start.IH by (simp add: keys_od_set)
  have size: "length (od_set (uuid4 w) session (sessions st)) \<le> Suc MAX_SESSIONS_IN_MEMORY"
    using reachable_start.IH length_od_set [of "uuid4 w" session "sessions st"] by simp
  show ?case
  proof (cases "length (od_set (uuid4 w) session (sessions st)) > MAX_SESSIONS_IN_MEMORY")
    case True
    with store size keys show ?thesis
      by (simp add: od_popitem_first_def drop_map [symmetric] distinct_drop del: drop_map)
  next
    case False
    with store keys show ?thesis by simp
  qed
next
  case (reachable_turn st w sid said)
  have "length (sessions (snd (get_manager_response_endpoint w sid said st))) =
        length (map fst (sessions (snd (get_manager_response_endpoint w sid said st))))"
    by simp
  with reachable_turn.IH show ?case
    by (simp only: turn_keeps_keys length_map simp_thms)
next
  case (reachable_feedback st w sid)
  then show ?case by (simp add: feedback_keeps_store)
next
  case (reachable_delete st sid)
  have "length (od_del sid (sessions st)) \<le> length (sessions st)"
    by (simp add: od_del_def)
  moreover have "distinct (map fst (od_del sid (sessions st)))"
    using reachable_delete.IH by (simp add: od_del_def distinct_map_filter)
  ultimately show ?case
    using reachable_delete.IH by (simp add: delete_session_def)
next
  case (reachable_reset st)
  show ?case by (simp add: reset_progress_def)
qed

lemma numbered_id_eq [simp]: "(numbered_id i = numbered_id j) = (i = j)"
proof
  assume "numbered_id i = numbered_id j"
  then have "length (numbered_id i) = length (numbered_id j)" by simp
  then show "i = j" by (simp add: numbered_id_def)
qed simp

lemma reachable_filled: "reachable (filled_state n)"
  by (induction n) (simp_all add: reachable_initial reachable_start)

lemma keys_filled:
  "n \<le> MAX_SESSIONS_IN_MEMORY \<Longrightarrow>
   map fst (sessions (filled_state n)) = map numbered_id [0..<n]"
proof (induction n)
  case 0
  show ?case by (simp add: initial_state_def)
next
  case (Suc n)
  then have keys: "map fst (sessions (filled_state n)) = map numbered_id [0..<n]"
    by simp
  then have fresh: "numbered_id n \<notin> fst ` set (sessions (filled_state n))"
    by (metis (no_types, lifting) atLeastLessThan_iff imageE image_set less_irrefl
        list.set_map numbered_id_eq set_upt)
  have len: "length (sessions (filled_state n)) = n"
    using keys by (metis length_map length_upt minus_nat.diff_0)
  obtain chosen where chosen: "sessions (snd (start_session (filling_world n) (filled_state n))) =
     (if length (od_set (uuid4 (filling_world n))
           \<lparr>session_id = uuid4 (filling_world n), scenario = chosen,
            conversation_history =
              [\<lparr>role = MANAGER, content = initial_prompt chosen,
                timestamp = clock (filling_world n) 1\<rparr>],
            start_time = clock (filling_world n) 0, is_active = True\<rparr>
           (sessions (filled_state n)))
         > MAX_SESSIONS_IN_MEMORY
      then od_popitem_first (od_set (uuid4 (filling_world n))
           \<lparr>session_id = uuid4 (filling_world n), scenario = chosen,
            conversation_history =
              [\<lparr>role = MANAGER, content = initial_prompt chosen,
                timestamp = clock (filling_world n) 1\<rparr>],
            start_time = clock (filling_world n) 0, is_active = True\<rparr>
           (sessions (filled_state n)))
      else od_set (uuid4 (filling_world n))
           \<lparr>session_id = uuid4 (filling_world n), scenario = chosen,
            conversation_history =
              [\<lparr>role = MANAGER, content = initial_prompt chosen,
                timestamp = clock (filling_world n) 1\<rparr>],
            start_time = clock (filling_world n) 0, is_active = True\<rparr>
           (sessions (filled_state n)))"
    using start_session_store [of "filling_world n" "filled_state n"] by (elim exE)
  have id: "uuid4 (filling_world n) = numbered_id n"
    by (simp add: filling_world_def)
  show ?case
    using chosen fresh len keys Suc.prems
    by (simp add: id od_set_fresh)
qed

text \<open>
  Claim C7. In every reachable state the store holds at most 100 sessions, and so it does
  after any \<open>start_session\<close>. When the store is full and the new identifier is not in it,
  the store after the call is the store before without its first pair, the one inserted
  longest ago, followed by the new session. A user turn leaves the order of the keys as it
  is, so the eviction goes by insertion, not by use.
\<close>

theorem store_bounded_fifo:
  assumes "reachable st"
  shows "length (sessions st) \<le> 100 \<and>
     length (sessions (snd (start_session w st))) \<le> 100 \<and>
     (length (sessions st) = 100 \<and> uuid4 w \<notin> fst ` set (sessions st) \<longrightarrow>
        (\<exists>session. session_id session = uuid4 w \<and>
           sessions (snd (start_session w st)) = tl (sessions st) @ [(uuid4 w, session)])) \<and>
     map fst (sessions (snd (get_manager_response_endpoint w sid said st))) =
       map fst (sessions st)"
proof -
  have before: "length (sessions st) \<le> 100"
    using reachable_store [OF assms] by (simp add: MAX_SESSIONS_IN_MEMORY_def)
  have after: "length (sessions (snd (start_session w st))) \<le> 100"
    using reachable_store [OF reachable_start [OF assms, of w]]
    by (simp add: MAX_SESSIONS_IN_MEMORY_def)
  have evict: "\<exists>session. session_id session = uuid4 w \<and>
           sessions (snd (start_session w st)) = tl (sessions st) @ [(uuid4 w, session)]"
    if full: "length (sessions st) = 100" and fresh: "uuid4 w \<notin> fst ` set (sessions st)"
  proof -
    obtain chosen where chosen: "sessions (snd (start_session w st)) =
     (if length (od_set (uuid4 w)
           \<lparr>session_id = uuid4 w, scenario = chosen,
            conversation_history =
              [\<lparr>role = MANAGER, content = initial_prompt chosen, timestamp = clock w 1\<rparr>],
            start_time = clock w 0, is_active = True\<rparr> (sessions st))
         > MAX_SESSIONS_IN_MEMORY
      then od_popitem_first (od_set (uuid4 w)
           \<lparr>session_id = uuid4 w, scenario = chosen,
            conversation_history =
              [\<lparr>role = MANAGER, content = initial_prompt chosen, timestamp = clock w 1\<rparr>],
            start_time = clock w 0, is_active = True\<rparr> (sessions st))
      else od_set (uuid4 w)
           \<lparr>session_id = uuid4 w, scenario = chosen,
            conversation_history =
              [\<lparr>role = MANAGER, content = initial_prompt chosen, timestamp = clock w 1\<rparr>],
            start_time = clock w 0, is_active = True\<rparr> (sessions st))"
      using start_session_store [of w st] by (elim exE)
    from full have nonempty: "sessions st \<noteq> []" by auto
    then have "drop 1 (sessions st) = tl (sessions st)"
      by (simp add: drop_Suc)
    with chosen full fresh nonempty have "sessions (snd (start_session w st)) =
        tl (sessions st) @ [(uuid4 w,
           \<lparr>session_id = uuid4 w, scenario = chosen,
            conversation_history =
              [\<lparr>role = MANAGER, content = initial_prompt chosen, timestamp = clock w 1\<rparr>],
            start_time = clock w 0, is_active = True\<rparr>)]"
      by (simp add: od_set_fresh MAX_SESSIONS_IN_MEMORY_def od_popitem_first_def)
    then show ?thesis
      by (intro exI [of _ "\<lparr>session_id = uuid4 w, scenario = chosen,
            conversation_history =
              [\<lparr>role = MANAGER, content = initial_prompt chosen, timestamp = clock w 1\<rparr>],
            start_time = clock w 0, is_active = True\<rparr>"]) simp
  qed
  show ?thesis
    using before after evict turn_keeps_keys [of w sid said st] by blast
qed

theorem store_bounded_fifo_witness:
  "length (sessions (filled_state 100)) = 100 \<and>
   map fst (sessions (filled_state 100)) = map numbered_id [0..<100] \<and>
   map fst (sessions (snd (start_session (filling_world 100) (filled_state 100)))) =
     map numbered_id [1..<101]"
proof -
  have keys: "map fst (sessions (filled_state 100)) = map numbered_id [0..<100]"
    by (rule keys_filled) (simp add: MAX_SESSIONS_IN_MEMORY_def)
  then have full: "length (sessions (filled_state 100)) = 100"
    by (metis length_map length_upt minus_nat.diff_0)
  have id: "uuid4 (filling_world 100) = numbered_id 100"
    by (simp add: filling_world_def)
  have fresh: "uuid4 (filling_world 100) \<notin> fst ` set (sessions (filled_state 100))"
  proof
    assume "uuid4 (filling_world 100) \<in> fst ` set (sessions (filled_state 100))"
    then have "numbered_id 100 \<in> set (map fst (sessions (filled_state 100)))"
      by (simp add: id)
    then show False unfolding keys by auto
  qed
  obtain session where "sessions (snd (start_session (filling_world 100) (filled_state 100))) =
      tl (sessions (filled_state 100)) @ [(uuid4 (filling_world 100), session)]"
    using store_bounded_fifo [OF reachable_filled, of 100 "filling_world 100"] full fresh
    by blast
  then have "map fst (sessions (snd (start_session (filling_world 100) (filled_state 100)))) =
      tl (map fst (sessions (filled_state 100))) @ [numbered_id 100]"
    by (simp add: map_tl id)
  also have "\<dots> = map numbered_id [1..<100] @ [numbered_id 100]"
    unfolding keys by (simp add: map_tl [symmetric] tl_upt del: map_tl)
  also have "\<dots> = map numbered_id ([1..<100] @ [100])"
    by simp
  also have "[1..<100] @ [100] = [1..<101]"
    using upt_Suc_append [of 1 100] by simp
  finally show ?thesis using full keys by simp
qed

section \<open>Feedback\<close>

lemma get_feedback_stored:
  assumes "od_get (sessions st) sid = Some session"
  shows "\<exists>response. fst (get_feedback w sid st) = Inr response"
    and "total_sessions (user_progress (snd (get_feedback w sid st))) =
           total_sessions (user_progress st) + 1"
    and "sessions (snd (get_feedback w sid st)) = sessions st"
  using assms by (simp_all add: get_feedback_def Let_def)

lemma get_feedback_repeated:
  assumes "od_get (sessions st) sid = Some session"
  shows "sessions (((\<lambda>s. snd (get_feedback w sid s)) ^^ n) st) = sessions st \<and>
         total_sessions (user_progress (((\<lambda>s. snd (get_feedback w sid s)) ^^ n) st)) =
           total_sessions (user_progress st) + int n"
proof (induction n)
  case 0
  show ?case by simp
next
  case (Suc n)
  let ?st = "((\<lambda>s. snd (get_feedback w sid s)) ^^ n) st"
  from Suc have same: "sessions ?st = sessions st"
    and count: "total_sessions (user_progress ?st) = total_sessions (user_progress st) + int n"
    by simp_all
  from assms same have stored: "od_get (sessions ?st) sid = Some session"
    by simp
  show ?case
    using get_feedback_stored(2,3) [OF stored, where w = w] same count by simp
qed

text \<open>
  Claim C9. When the history has no turn of the user, and likewise when the language model
  of the scorer fails on the request, \<open>analyze_conversation\<close> returns the default feedback:
  the three scores are 7.0 and the tip is the fixed generic one.
\<close>

theorem default_feedback_on_no_user_turn_or_failure:
  assumes "(\<forall>msg \<in> set (conversation_history session). role msg \<noteq> USER) \<or>
           (\<exists>e. client (analysis_request session
                  (map content (filter (\<lambda>msg. role msg = USER)
                     (conversation_history session)))) = Inl e)"
  shows "analyze_conversation client session = generate_default_feedback \<and>
         clarity_score (analyze_conversation client session) = 7 \<and>
         fluency_score (analyze_conversation client session) = 7 \<and>
         professional_score (analyze_conversation client session) = 7 \<and>
         improvement_tip (analyze_conversation client session) =
           ''Great practice session! Focus on being more specific when describing your '' @
           ''work and any blockers you encounter.''"
proof -
  have "analyze_conversation client session = generate_default_feedback"
    using assms
  proof
    assume "\<forall>msg \<in> set (conversation_history session). role msg \<noteq> USER"
    then have "filter (\<lambda>msg. role msg = USER) (conversation_history session) = []"
      by (simp add: filter_empty_conv)
    then show ?thesis
      by (simp add: analyze_conversation_def)
  next
    assume "\<exists>e. client (analysis_request session
                  (map content (filter (\<lambda>msg. role msg = USER)
                     (conversation_history session)))) = Inl e"
    then show ?thesis
      by (auto simp: analyze_conversation_def Let_def)
  qed
  then show ?thesis
    by (simp add: generate_default_feedback_def)
qed

theorem default_feedback_on_no_user_turn_or_failure_witness:
  "analyze_conversation replying_model demo_session = generate_default_feedback \<and>
   analyze_conversation failing_model
     (demo_session\<lparr>conversation_history :=
        [demo_opening, \<lparr>role = USER, content = ''Fine.'', timestamp = 1\<rparr>]\<rparr>) =
     generate_default_feedback"
proof -
  have "analyze_conversation replying_model demo_session = generate_default_feedback"
    using default_feedback_on_no_user_turn_or_failure [of demo_session replying_model]
    by (simp add: demo_session_def demo_opening_def)
  moreover have "analyze_conversation failing_model
     (demo_session\<lparr>conversation_history :=
        [demo_opening, \<lparr>role = USER, content = ''Fine.'', timestamp = 1\<rparr>]\<rparr>) =
     generate_default_feedback"
    using default_feedback_on_no_user_turn_or_failure
      [of "demo_session\<lparr>conversation_history :=
        [demo_opening, \<lparr>role = USER, content = ''Fine.'', timestamp = 1\<rparr>]\<rparr>" failing_model]
    by (simp add: failing_model_def)
  ultimately show ?thesis by simp
qed

text \<open>
  Claim C10. \<open>get_feedback\<close> asks only that the session is in the store; it does not look
  at the active flag. For every stored session the request succeeds, adds exactly one to
  \<open>total_sessions\<close> and leaves the store, hence the flag and the history of the session, as
  they are; so \<open>n\<close> requests for the same session add \<open>n\<close>.
\<close>

theorem feedback_counts_every_request:
  assumes "od_get (sessions st) sid = Some session"
  shows "(\<exists>response. fst (get_feedback w sid st) = Inr response) \<and>
         total_sessions (user_progress (snd (get_feedback w sid st))) =
           total_sessions (user_progress st) + 1 \<and>
         sessions (snd (get_feedback w sid st)) = sessions st \<and>
         total_sessions (user_progress (((\<lambda>s. snd (get_feedback w sid s)) ^^ n) st)) =
           total_sessions (user_progress st) + int n"
  using get_feedback_stored [OF assms, where w = w]
    get_feedback_repeated [OF assms, where w = w and n = n]
  by simp

theorem feedback_counts_every_request_witness:
  "total_sessions (user_progress (snd (get_feedback failing_world ''s1''
      (demo_state\<lparr>sessions := [(''s1'', demo_session\<lparr>is_active := False\<rparr>)]\<rparr>)))) = 1 \<and>
   sessions (snd (get_feedback failing_world ''s1''
      (demo_state\<lparr>sessions := [(''s1'', demo_session\<lparr>is_active := False\<rparr>)]\<rparr>))) =
     [(''s1'', demo_session\<lparr>is_active := False\<rparr>)] \<and>
   total_sessions (user_progress (((\<lambda>s. snd (get_feedback failing_world ''s1'' s)) ^^ 2)
      (demo_state\<lparr>sessions := [(''s1'', demo_session\<lparr>is_active := False\<rparr>)]\<rparr>))) = 2"
proof -
  have stored: "od_get (sessions (demo_state\<lparr>sessions :=
      [(''s1'', demo_session\<lparr>is_active := False\<rparr>)]\<rparr>)) ''s1'' =
      Some (demo_session\<lparr>is_active := False\<rparr>)"
    by (simp add: od_get_def)
  have zero: "total_sessions (user_progress (demo_state\<lparr>sessions :=
      [(''s1'', demo_session\<lparr>is_active := False\<rparr>)]\<rparr>)) = 0"
    by (simp add: demo_state_def new_user_progress_def)
  show ?thesis
    using feedback_counts_every_request [OF stored, where w = failing_world and n = 2]
    unfolding zero by simp
qed

section \<open>The surprise element\<close>

lemma str_contains_sublist: "str_contains keyword s = sublist keyword s"
  by (induction s) (simp_all add: sublist_Cons_right)

lemma history_mentions_iff:
  "history_mentions kws h =
     (\<exists>msg \<in> set h. role msg = MANAGER \<and>
        (\<exists>kw \<in> set kws. sublist kw (lower (content msg))))"
  by (induction h) (auto simp: Let_def list_ex_iff str_contains_sublist)

lemma surprise_already_introduced_iff:
  assumes "surprise_element (scenario session) = Some element" and "element \<noteq> []"
  shows "surprise_already_introduced session =
     (\<exists>msg \<in> set (conversation_history session). role msg = MANAGER \<and>
        (\<exists>kw \<in> set (take 3 (split (lower element))). sublist kw (lower (content msg))))"
  using assms
  by (simp add: surprise_already_introduced_def truthy_def Let_def history_mentions_iff)

lemma append_to_last_content_snoc:
  "append_to_last_content (xs @ [ChatMessage r c]) extra = xs @ [ChatMessage r (c @ extra)]"
  by (simp add: append_to_last_content_def)

text \<open>The request of a session that has a surprise element, written out.\<close>

lemma build_request_shape:
  assumes "surprise_element (scenario session) = Some element" and "element \<noteq> []"
    and "build_request env now session user_message = Inr (messages, flag)"
  shows "messages =
     ([ChatMessage ''system'' SYSTEM_PROMPT, ChatMessage ''system'' (scenario_context session)] @
      history_messages (conversation_history session)) @
     [ChatMessage ''user''
        (if 2 \<le> length (conversation_history session) div 2 \<and>
            length (conversation_history session) div 2 \<le> 4 \<and>
            \<not> surprise_already_introduced session
         then user_message @ surprise_instruction element else user_message)] @
     (if flag then [ChatMessage ''system'' WRAP_UP_INSTRUCTION] else [])"
proof -
  have snoc: "[ChatMessage ''system'' SYSTEM_PROMPT,
          ChatMessage ''system'' (scenario_context session)] @
         history_messages (conversation_history session) @ [ChatMessage ''user'' user_message] =
        ([ChatMessage ''system'' SYSTEM_PROMPT,
          ChatMessage ''system'' (scenario_context session)] @
         history_messages (conversation_history session)) @ [ChatMessage ''user'' user_message]"
    by simp
  show ?thesis
    using assms
    unfolding build_request_def Let_def snoc append_to_last_content_snoc
    by (auto simp: truthy_def split: sum.splits if_splits)
qed

lemma request_user_content:
  assumes "surprise_element (scenario session) = Some element" and "element \<noteq> []"
    and "build_request env now session user_message = Inr (messages, flag)"
  shows "messages ! (length (conversation_history session) + 2) =
     ChatMessage ''user''
       (if 2 \<le> length (conversation_history session) div 2 \<and>
           length (conversation_history session) div 2 \<le> 4 \<and>
           \<not> (\<exists>msg \<in> set (conversation_history session). role msg = MANAGER \<and>
                (\<exists>kw \<in> set (take 3 (split (lower element))).
                    sublist kw (lower (content msg))))
        then user_message @ surprise_instruction element else user_message)"
proof -
  have len: "length ([ChatMessage ''system'' SYSTEM_PROMPT,
        ChatMessage ''system'' (scenario_context session)] @
      history_messages (conversation_history session)) =
      length (conversation_history session) + 2"
    by (simp add: history_messages_def)
  show ?thesis
    unfolding build_request_shape [OF assms]
      surprise_already_introduced_iff [OF assms(1) assms(2), symmetric]
    using nth_append_length [of "[ChatMessage ''system'' SYSTEM_PROMPT,
        ChatMessage ''system'' (scenario_context session)] @
      history_messages (conversation_history session)"]
    unfolding len by simp
qed

lemma py_int_300: "py_int ''300'' = Inr 300"
  by code_simp

lemma should_end_early:
  "length (conversation_history session) div 2 < 6 \<Longrightarrow>
   total_seconds (now - start_time session) < 300 \<Longrightarrow>
   should_end_conversation None now session = Inr False"
  by (simp add: should_end_conversation_def Let_def py_int_300)

lemma demo_keywords:
  "take 3 (split (lower ''Manager asks about impact on timeline'')) =
     [''manager'', ''asks'', ''about'']"
  by code_simp

lemma demo_quiet_history:
  "history_mentions [''manager'', ''asks'', ''about'']
     (conversation_history demo_quiet_session) = False"
  by code_simp

lemma demo_told_history:
  "history_mentions [''manager'', ''asks'', ''about'']
     (conversation_history demo_told_session) = True"
  by code_simp

text \<open>
  Claim C8. Take a session whose scenario has a surprise element (a text that is not empty)
  and a call on which a request is sent. The message of the user in that request, which
  follows the two system messages and the history, carries the instruction to introduce
  the surprise element exactly when the number of exchanges is 2, 3 or 4 and no MANAGER
  turn of the history contains, in lower case, one of the first three words of the
  lowercased surprise element; otherwise it is the text of the user as given. Hence once
  a MANAGER turn of the history contains such a word, no later call of the session, whose
  history extends this one, carries the instruction.
\<close>

theorem surprise_annotation_iff:
  assumes "surprise_element (scenario session) = Some element" and "element \<noteq> []"
    and "build_request env now session user_message = Inr (messages, flag)"
  shows "chat_role (messages ! (length (conversation_history session) + 2)) = ''user'' \<and>
     (chat_content (messages ! (length (conversation_history session) + 2)) =
        user_message @ surprise_instruction element) =
       (2 \<le> length (conversation_history session) div 2 \<and>
        length (conversation_history session) div 2 \<le> 4 \<and>
        \<not> (\<exists>msg \<in> set (conversation_history session). role msg = MANAGER \<and>
             (\<exists>kw \<in> set (take 3 (split (lower element))).
                 sublist kw (lower (content msg))))) \<and>
     (chat_content (messages ! (length (conversation_history session) + 2)) = user_message) =
       (\<not> (2 \<le> length (conversation_history session) div 2 \<and>
           length (conversation_history session) div 2 \<le> 4 \<and>
           \<not> (\<exists>msg \<in> set (conversation_history session). role msg = MANAGER \<and>
                (\<exists>kw \<in> set (take 3 (split (lower element))).
                    sublist kw (lower (content msg)))))) \<and>
     ((\<exists>msg \<in> set (conversation_history session). role msg = MANAGER \<and>
          (\<exists>kw \<in> set (take 3 (split (lower element))).
              sublist kw (lower (content msg)))) \<longrightarrow>
      (\<forall>more later_env later_now later_message later_messages later_flag.
          build_request later_env later_now
            (session\<lparr>conversation_history := conversation_history session @ more\<rparr>)
            later_message = Inr (later_messages, later_flag) \<longrightarrow>
          chat_content (later_messages ! (length (conversation_history session @ more) + 2)) =
            later_message))"
proof -
  have instruction: "surprise_instruction element \<noteq> []"
    by (simp add: surprise_instruction_def)
  note now_call = request_user_content [OF assms]
  have first: "chat_role (messages ! (length (conversation_history session) + 2)) = ''user''"
    unfolding now_call by simp
  have second: "(chat_content (messages ! (length (conversation_history session) + 2)) =
        user_message @ surprise_instruction element) =
       (2 \<le> length (conversation_history session) div 2 \<and>
        length (conversation_history session) div 2 \<le> 4 \<and>
        \<not> (\<exists>msg \<in> set (conversation_history session). role msg = MANAGER \<and>
             (\<exists>kw \<in> set (take 3 (split (lower element))).
                 sublist kw (lower (content msg)))))"
    unfolding now_call using instruction by simp
  have third: "(chat_content (messages ! (length (conversation_history session) + 2)) =
        user_message) =
       (\<not> (2 \<le> length (conversation_history session) div 2 \<and>
           length (conversation_history session) div 2 \<le> 4 \<and>
           \<not> (\<exists>msg \<in> set (conversation_history session). role msg = MANAGER \<and>
                (\<exists>kw \<in> set (take 3 (split (lower element))).
                    sublist kw (lower (content msg))))))"
    unfolding now_call using instruction by simp
  have later: "chat_content (later_messages ! (length (conversation_history session @ more) + 2)) =
            later_message"
    if told: "\<exists>msg \<in> set (conversation_history session). role msg = MANAGER \<and>
          (\<exists>kw \<in> set (take 3 (split (lower element))). sublist kw (lower (content msg)))"
      and request: "build_request later_env later_now
            (session\<lparr>conversation_history := conversation_history session @ more\<rparr>)
            later_message = Inr (later_messages, later_flag)"
    for more later_env later_now later_message later_messages later_flag
  proof -
    have same: "surprise_element (scenario
        (session\<lparr>conversation_history := conversation_history session @ more\<rparr>)) = Some element"
      using assms(1) by simp
    have still: "\<exists>msg \<in> set (conversation_history
          (session\<lparr>conversation_history := conversation_history session @ more\<rparr>)).
        role msg = MANAGER \<and>
          (\<exists>kw \<in> set (take 3 (split (lower element))). sublist kw (lower (content msg)))"
      using told by auto
    show ?thesis
    proof -
      have "later_messages ! (length (conversation_history
          (session\<lparr>conversation_history := conversation_history session @ more\<rparr>)) + 2) =
        ChatMessage ''user'' later_message"
        using request_user_content [OF same assms(2) request] still
        by (simp only: if_not_P simp_thms)
      then show ?thesis by simp
    qed
  qed
  show ?thesis
    using first second third later by blast
qed

theorem surprise_annotation_iff_witness:
  "(\<exists>messages flag.
      build_request None 5 demo_quiet_session ''So what now?'' = Inr (messages, flag) \<and>
      chat_content (messages ! 6) =
        ''So what now?'' @ surprise_instruction ''Manager asks about impact on timeline'') \<and>
   (\<exists>messages flag.
      build_request None 5 demo_told_session ''So what now?'' = Inr (messages, flag) \<and>
      chat_content (messages ! 6) = ''So what now?'')"
proof -
  have quiet_element: "surprise_element (scenario demo_quiet_session) =
      Some ''Manager asks about impact on timeline''"
    by (simp add: demo_quiet_session_def demo_session_def scenario_medium_1_def)
  have told_element: "surprise_element (scenario demo_told_session) =
      Some ''Manager asks about impact on timeline''"
    by (simp add: demo_told_session_def demo_session_def scenario_medium_1_def)
  have element: "''Manager asks about impact on timeline'' \<noteq> []"
    by simp
  have quiet_length: "length (conversation_history demo_quiet_session) = 4"
    by (simp add: demo_quiet_session_def)
  have told_length: "length (conversation_history demo_told_session) = 4"
    by (simp add: demo_told_session_def)
  have "should_end_conversation None 5 demo_quiet_session = Inr False"
    by (rule should_end_early)
      (simp_all add: quiet_length total_seconds_def demo_quiet_session_def demo_session_def)
  then obtain quiet_messages where quiet_request:
    "build_request None 5 demo_quiet_session ''So what now?'' = Inr (quiet_messages, False)"
    using build_request_flag by blast
  have "should_end_conversation None 5 demo_told_session = Inr False"
    by (rule should_end_early)
      (simp_all add: told_length total_seconds_def demo_told_session_def demo_session_def)
  then obtain told_messages where told_request:
    "build_request None 5 demo_told_session ''So what now?'' = Inr (told_messages, False)"
    using build_request_flag by blast
  have quiet: "\<not> (\<exists>msg \<in> set (conversation_history demo_quiet_session). role msg = MANAGER \<and>
      (\<exists>kw \<in> set (take 3 (split (lower ''Manager asks about impact on timeline''))).
          sublist kw (lower (content msg))))"
    unfolding demo_keywords history_mentions_iff [symmetric] demo_quiet_history by simp
  have told: "\<exists>msg \<in> set (conversation_history demo_told_session). role msg = MANAGER \<and>
      (\<exists>kw \<in> set (take 3 (split (lower ''Manager asks about impact on timeline''))).
          sublist kw (lower (content msg)))"
    unfolding demo_keywords history_mentions_iff [symmetric] demo_told_history by simp
  have "chat_content (quiet_messages ! 6) =
        ''So what now?'' @ surprise_instruction ''Manager asks about impact on timeline''"
    using surprise_annotation_iff [OF quiet_element element quiet_request] quiet
    unfolding quiet_length by simp
  moreover have "chat_content (told_messages ! 6) = ''So what now?''"
    using surprise_annotation_iff [OF told_element element told_request] told
    unfolding told_length by simp
  ultimately show ?thesis
    using quiet_request told_request by blast
qed

end
